theory Spec2Isabelle
  imports Complex_Main "HOL-Library.Sublist"
begin

section \<open>Python values, exceptions and string operations\<close>

text \<open>
  The fault injectors of \<^verbatim>\<open>mininet/fault_injectors.py\<close> build shell command strings
  from user-supplied argument lists and run them on a timeline. The exceptions the code
  can raise are values of \<open>error\<close>; a function that may raise returns \<open>error + 'a\<close>.
\<close>

datatype error =
    IndexError | ValueError | TypeError | KeyError | ZeroDivisionError
  | OverflowError | AttributeError | Unmodelled

text \<open>
  The entries of \<^verbatim>\<open>fault_args\<close> and \<^verbatim>\<open>fault_pattern_args\<close> are integers or strings
  (the code applies \<^verbatim>\<open>int()\<close>, \<^verbatim>\<open>str()\<close> and string concatenation to them).
\<close>

datatype pyval = PInt int | PStr string

definition bindE :: "error + 'a \<Rightarrow> ('a \<Rightarrow> error + 'b) \<Rightarrow> error + 'b" where
  "bindE m f = (case m of Inl e \<Rightarrow> Inl e | Inr x \<Rightarrow> f x)"

subsection \<open>\<^verbatim>\<open>str(int)\<close>\<close>

definition digit_char :: "nat \<Rightarrow> char" where
  "digit_char d = ''0123456789'' ! d"

function str_nat :: "nat \<Rightarrow> string" where
  "str_nat n = (if n < 10 then [digit_char n] else str_nat (n div 10) @ [digit_char (n mod 10)])"
  by pat_completeness auto
termination
  by (relation "measure (\<lambda>n. n)") auto

declare str_nat.simps [simp del]

definition str_int :: "int \<Rightarrow> string" where
  "str_int i = (if i < 0 then CHR ''-'' # str_nat (nat (- i)) else str_nat (nat i))"

text \<open>\<^verbatim>\<open>str(x)\<close> of an argument, and \<^verbatim>\<open>str(pid)\<close> of a pid that may be \<^verbatim>\<open>None\<close>.\<close>

fun py_str :: "pyval \<Rightarrow> string" where
  "py_str (PInt i) = str_int i"
| "py_str (PStr s) = s"

fun str_pid :: "int option \<Rightarrow> string" where
  "str_pid None = ''None''"
| "str_pid (Some p) = str_int p"

text \<open>A value used as an operand of string \<^verbatim>\<open>+\<close>: an integer there raises TypeError.\<close>

fun as_str :: "pyval \<Rightarrow> error + string" where
  "as_str (PStr s) = Inr s"
| "as_str (PInt i) = Inl TypeError"

subsection \<open>\<^verbatim>\<open>sub in s\<close>, \<^verbatim>\<open>s.replace(old, new)\<close>, \<^verbatim>\<open>s.count(sub)\<close>\<close>

fun py_in :: "string \<Rightarrow> string \<Rightarrow> bool" where
  "py_in sub [] = (sub = [])"
| "py_in sub (c # cs) = (prefix sub (c # cs) \<or> py_in sub cs)"

text \<open>
  \<^verbatim>\<open>str.replace\<close> substitutes every non-overlapping occurrence, scanning from the left.
  With an empty \<^verbatim>\<open>old\<close> Python inserts \<^verbatim>\<open>new\<close> before every character and at the end.
\<close>

function py_replace :: "string \<Rightarrow> string \<Rightarrow> string \<Rightarrow> string" where
  "py_replace old new [] = (if old = [] then new else [])"
| "py_replace old new (c # cs) =
     (if old = [] then new @ concat (map (\<lambda>x. x # new) (c # cs))
      else if prefix old (c # cs) then new @ py_replace old new (drop (length old) (c # cs))
      else c # py_replace old new cs)"
  by pat_completeness auto
termination
  by (relation "measure (\<lambda>(old, new, s). length s)") auto

function py_count :: "string \<Rightarrow> string \<Rightarrow> nat" where
  "py_count sub [] = (if sub = [] then 1 else 0)"
| "py_count sub (c # cs) =
     (if sub = [] then Suc (Suc (length cs))
      else if prefix sub (c # cs) then Suc (py_count sub (drop (length sub) (c # cs)))
      else py_count sub cs)"
  by pat_completeness auto
termination
  by (relation "measure (\<lambda>(sub, s). length s)") auto

subsection \<open>List indexing\<close>

definition py_index :: "'a list \<Rightarrow> nat \<Rightarrow> error + 'a" where
  "py_index xs i = (if i < length xs then Inr (xs ! i) else Inl IndexError)"

text \<open>Indexing a value that may be \<^verbatim>\<open>None\<close>: \<^verbatim>\<open>None[i]\<close> raises TypeError.\<close>

fun py_index_opt :: "'a list option \<Rightarrow> nat \<Rightarrow> error + 'a" where
  "py_index_opt None i = Inl TypeError"
| "py_index_opt (Some xs) i = py_index xs i"

subsection \<open>\<^verbatim>\<open>int(x)\<close>\<close>

text \<open>
  \<^verbatim>\<open>int(s)\<close> of a string: surrounding whitespace is stripped, an optional sign follows,
  then decimal digits, where single underscores may separate digits. Anything else raises
  ValueError. (Only ASCII whitespace and digits are modelled.)
\<close>

definition is_space :: "char \<Rightarrow> bool" where
  "is_space c = (c \<in> set [CHR '' '', CHR 0x09, CHR 0x0A, CHR 0x0B, CHR 0x0C, CHR 0x0D])"

definition strip :: "string \<Rightarrow> string" where
  "strip s = rev (dropWhile is_space (rev (dropWhile is_space s)))"

definition is_digit :: "char \<Rightarrow> bool" where
  "is_digit c = (c \<in> set ''0123456789'')"

definition digit_val :: "char \<Rightarrow> nat" where
  "digit_val c = of_char c - 48"

fun parse_digits :: "bool \<Rightarrow> nat \<Rightarrow> string \<Rightarrow> nat option" where
  "parse_digits prev acc [] = (if prev then Some acc else None)"
| "parse_digits prev acc (c # cs) =
     (if is_digit c then parse_digits True (10 * acc + digit_val c) cs
      else if c = CHR ''_'' \<and> prev then parse_digits False acc cs
      else None)"

definition parse_int :: "string \<Rightarrow> error + int" where
  "parse_int s =
     (case strip s of
        [] \<Rightarrow> Inl ValueError
      | c # cs \<Rightarrow>
          (if c = CHR ''-'' then (case parse_digits False 0 cs of None \<Rightarrow> Inl ValueError | Some n \<Rightarrow> Inr (- int n))
           else if c = CHR ''+'' then (case parse_digits False 0 cs of None \<Rightarrow> Inl ValueError | Some n \<Rightarrow> Inr (int n))
           else (case parse_digits False 0 (c # cs) of None \<Rightarrow> Inl ValueError | Some n \<Rightarrow> Inr (int n))))"

fun py_int :: "pyval \<Rightarrow> error + int" where
  "py_int (PInt i) = Inr i"
| "py_int (PStr s) = parse_int s"

subsection \<open>\<^verbatim>\<open>template.format(args)\<close>\<close>

text \<open>
  \<^verbatim>\<open>str.format\<close> with positional arguments already converted to strings. The template
  is scanned from the left: \<^verbatim>\<open>{{\<close> and \<^verbatim>\<open>}}\<close> are escapes, \<^verbatim>\<open>{}\<close> takes the next
  argument and raises IndexError when none is left, a lone brace raises ValueError.
  Replacement fields with a name, index, conversion or format spec are outside the model.
\<close>

fun py_format :: "string \<Rightarrow> string list \<Rightarrow> error + string" where
  "py_format [] args = Inr []"
| "py_format [c] args = (if c = CHR ''{'' \<or> c = CHR ''}'' then Inl ValueError else Inr [c])"
| "py_format (c # d # ds) args =
     (if c = CHR ''{'' then
        (if d = CHR ''{'' then bindE (py_format ds args) (\<lambda>r. Inr (CHR ''{'' # r))
         else if d = CHR ''}'' then
           (case args of
              [] \<Rightarrow> Inl IndexError
            | a # as \<Rightarrow> bindE (py_format ds as) (\<lambda>r. Inr (a @ r)))
         else Inl Unmodelled)
      else if c = CHR ''}'' then
        (if d = CHR ''}'' then bindE (py_format ds args) (\<lambda>r. Inr (CHR ''}'' # r))
         else Inl ValueError)
      else bindE (py_format (d # ds) args) (\<lambda>r. Inr (c # r)))"

section \<open>Floats\<close>

text \<open>
  A Python float is an IEEE 754 double; a finite one is a rational. \<open>fl\<close> rounds a
  rational to the nearest double, ties to even, with the 53-bit significand and the
  gradual underflow of the format. An operation whose result is infinite or NaN is outside
  the model, except where Python raises OverflowError.
\<close>

function bitlen :: "int \<Rightarrow> int" where
  "bitlen n = (if n \<le> 0 then 0 else 1 + bitlen (n div 2))"
  by pat_completeness auto
termination
  by (relation "measure (\<lambda>n. nat n)") auto

declare bitlen.simps [simp del]

definition pow2 :: "int \<Rightarrow> rat" where
  "pow2 k = (if 0 \<le> k then 2 ^ nat k else 1 / 2 ^ nat (- k))"

text \<open>
  \<open>ilog2 x\<close> is \<open>\<lfloor>log\<^sub>2 x\<rfloor>\<close> for positive \<open>x\<close>: one less than the bit length of
  \<open>\<lfloor>x\<rfloor>\<close> when \<open>1 \<le> x\<close>, and minus the bit length of \<open>\<lceil>1 / x\<rceil> - 1\<close> below 1.
\<close>

definition ilog2 :: "rat \<Rightarrow> int" where
  "ilog2 x = (if 1 \<le> x then bitlen \<lfloor>x\<rfloor> - 1 else - bitlen (\<lceil>1 / x\<rceil> - 1))"

definition round_half_even :: "rat \<Rightarrow> int" where
  "round_half_even x =
     (let f = \<lfloor>x\<rfloor>; d = x - of_int f
      in if d < 1 / 2 then f else if 1 / 2 < d then f + 1 else if even f then f else f + 1)"

definition fl :: "rat \<Rightarrow> rat" where
  "fl x = (if x = 0 then 0
           else (let e = max (ilog2 \<bar>x\<bar>) (- 1022); q = pow2 (e - 52)
                 in of_int (round_half_even (x / q)) * q))"

definition float_finite :: "rat \<Rightarrow> bool" where
  "float_finite r = (\<bar>r\<bar> < pow2 1024)"

text \<open>\<^verbatim>\<open>a / b\<close> on two ints: the correctly rounded quotient.\<close>

definition int_truediv :: "int \<Rightarrow> int \<Rightarrow> error + rat" where
  "int_truediv a b =
     (if b = 0 then Inl ZeroDivisionError
      else (let r = fl (of_int a / of_int b) in if float_finite r then Inr r else Inl OverflowError))"

text \<open>\<^verbatim>\<open>float(i)\<close> of an int, also the implicit conversion of an int operand.\<close>

definition float_of_int :: "int \<Rightarrow> error + rat" where
  "float_of_int i = (let r = fl (of_int i) in if float_finite r then Inr r else Inl OverflowError)"

definition float_div :: "rat \<Rightarrow> rat \<Rightarrow> error + rat" where
  "float_div a b =
     (if b = 0 then Inl ZeroDivisionError
      else (let r = fl (a / b) in if float_finite r then Inr r else Inl Unmodelled))"

definition float_mul :: "rat \<Rightarrow> rat \<Rightarrow> error + rat" where
  "float_mul a b = (let r = fl (a * b) in if float_finite r then Inr r else Inl Unmodelled)"

definition float_sub :: "rat \<Rightarrow> rat \<Rightarrow> error + rat" where
  "float_sub a b = (let r = fl (a - b) in if float_finite r then Inr r else Inl Unmodelled)"

text \<open>\<^verbatim>\<open>int(x)\<close> of a finite float truncates towards zero; \<^verbatim>\<open>math.ceil\<close> rounds up.\<close>

definition int_of_float :: "rat \<Rightarrow> int" where
  "int_of_float r = (if 0 \<le> r then \<lfloor>r\<rfloor> else \<lceil>r\<rceil>)"

definition py_ceil :: "rat \<Rightarrow> int" where
  "py_ceil r = \<lceil>r\<rceil>"

text \<open>
  \<^verbatim>\<open>float(x)\<close> of an argument. Of the strings only plain decimal numerals
  (sign, digits, optional fraction) are modelled.
\<close>

fun parse_fraction :: "rat \<Rightarrow> rat \<Rightarrow> string \<Rightarrow> rat option" where
  "parse_fraction scale acc [] = Some acc"
| "parse_fraction scale acc (c # cs) =
     (if is_digit c then parse_fraction (scale / 10) (acc + of_nat (digit_val c) * scale / 10) cs
      else None)"

definition parse_decimal :: "string \<Rightarrow> rat option" where
  "parse_decimal s =
     (let ip = takeWhile is_digit s; rest = dropWhile is_digit s
      in case rest of
           [] \<Rightarrow> (if ip = [] then None else map_option of_nat (parse_digits False 0 ip))
         | c # fp \<Rightarrow>
             (if c = CHR ''.'' \<and> (ip \<noteq> [] \<or> fp \<noteq> [])
              then (case parse_fraction 1 0 fp of
                      None \<Rightarrow> None
                    | Some f \<Rightarrow> Some (of_nat (case parse_digits False 0 ip of None \<Rightarrow> 0 | Some n \<Rightarrow> n) + f))
              else None))"

definition parse_float :: "string \<Rightarrow> error + rat" where
  "parse_float s =
     (case strip s of
        [] \<Rightarrow> Inl ValueError
      | c # cs \<Rightarrow>
          (case (if c = CHR ''-'' then map_option uminus (parse_decimal cs)
                 else if c = CHR ''+'' then parse_decimal cs
                 else parse_decimal (c # cs)) of
             None \<Rightarrow> Inl Unmodelled
           | Some r \<Rightarrow> Inr (fl r)))"

fun py_float :: "pyval \<Rightarrow> error + rat" where
  "py_float (PInt i) = float_of_int i"
| "py_float (PStr s) = parse_float s"

section \<open>Events of a run\<close>

text \<open>
  What a scheduler task does to the outside world, in order: it sleeps
  (\<^verbatim>\<open>asyncio.sleep\<close>), hands a command to the shell (\<^verbatim>\<open>call\<close>/\<^verbatim>\<open>run\<close> with
  \<^verbatim>\<open>shell=True\<close>), calls the fault logger, and writes error-level log lines.
  Info- and debug-level log lines are not recorded. Durations are rationals (see the
  section on floats).
\<close>

datatype event =
    Sleep rat
  | Shell string
  | SetFaultActive string string string int
  | SetFaultInactive string
  | LogError string

text \<open>
  A run is the list of events performed so far together with either the exception that
  ended it or its result: an exception keeps the events that happened before it.
\<close>

type_synonym 'a run = "event list \<times> (error + 'a)"

fun prepend :: "event list \<Rightarrow> 'a run \<Rightarrow> 'a run" where
  "prepend es (es', r) = (es @ es', r)"

definition bindR :: "'a run \<Rightarrow> ('a \<Rightarrow> 'b run) \<Rightarrow> 'b run" where
  "bindR m f = (case m of
       (es, Inl e) \<Rightarrow> (es, Inl e)
     | (es, Inr x) \<Rightarrow> prepend es (f x))"

definition thenR :: "unit run \<Rightarrow> 'b run \<Rightarrow> 'b run" where
  "thenR m k = bindR m (\<lambda>_. k)"

definition emit :: "event \<Rightarrow> unit run" where
  "emit e = ([e], Inr ())"

definition done_run :: "unit run" where
  "done_run = ([], Inr ())"

definition liftE :: "error + 'a \<Rightarrow> 'a run" where
  "liftE r = ([], r)"

section \<open>MultiInjector\<close>

text \<open>
  \<^verbatim>\<open>inject_command\<close> and \<^verbatim>\<open>eject_command\<close> are the two strings that the constructor
  computes with \<^verbatim>\<open>build_start_command\<close>; the return code of a shell command is given by
  the environment \<open>sh\<close>.
\<close>

record multi_injector =
  m_target_process_pid :: "int option"
  m_tag :: string
  m_fault_pattern :: "string option"
  m_fault_pattern_args :: "pyval list"
  m_inject_command :: string
  m_eject_command :: string
  m_pre_injection_time :: rat
  m_injection_time :: rat
  m_post_injection_time :: rat

text \<open>The command string that \<^verbatim>\<open>MultiInjector.execute_command_for_node\<close> hands to the shell.\<close>

definition multi_full_command :: "int option \<Rightarrow> string \<Rightarrow> string" where
  "multi_full_command pid_of_node command_to_execute =
     (let base_command = ''nsenter --target '' @ str_pid pid_of_node @ '' --net --pid '';
          full_command = base_command @ command_to_execute
      in if py_in ''|'' full_command
         then py_replace ''|'' (''nsenter --target '' @ str_pid pid_of_node @ '' --net --pid '') full_command
         else full_command)"

definition multi_execute_command_for_node ::
  "(string \<Rightarrow> int) \<Rightarrow> multi_injector \<Rightarrow> int option \<Rightarrow> string \<Rightarrow> bool \<Rightarrow> unit run" where
  "multi_execute_command_for_node sh self pid_of_node command_to_execute enable =
     (let full_command = multi_full_command pid_of_node command_to_execute;
          retcode = sh full_command
      in thenR (emit (Shell full_command))
           (if enable then emit (SetFaultActive (m_tag self) ''multi-fault'' command_to_execute retcode)
            else emit (SetFaultInactive (m_tag self))))"

text \<open>
  The burst loop of \<^verbatim>\<open>_inject_burst\<close>: \<^verbatim>\<open>for _ in range(burst_num)\<close> runs
  \<open>nat burst_num\<close> times (not at all for a negative count).
\<close>

fun multi_burst_loop ::
  "(string \<Rightarrow> int) \<Rightarrow> multi_injector \<Rightarrow> nat \<Rightarrow> rat \<Rightarrow> rat \<Rightarrow> unit run" where
  "multi_burst_loop sh self 0 burst_duration burst_period = done_run"
| "multi_burst_loop sh self (Suc n) burst_duration burst_period =
     thenR (multi_execute_command_for_node sh self (m_target_process_pid self) (m_inject_command self) True)
    (thenR (emit (Sleep burst_duration))
    (thenR (multi_execute_command_for_node sh self (m_target_process_pid self) (m_eject_command self) False)
    (bindR (liftE (float_sub burst_period burst_duration)) (\<lambda>gap.
     thenR (emit (Sleep gap))
           (multi_burst_loop sh self n burst_duration burst_period)))))"

text \<open>
  The burst duration and period in seconds, as \<^verbatim>\<open>_inject_burst\<close> of the Multi and the Node
  injector compute them: the defaults 1 and 2 with an error log line when fewer than two
  pattern arguments are given.
\<close>

definition burst_config_or_default :: "string \<Rightarrow> pyval list \<Rightarrow> (rat \<times> rat) run" where
  "burst_config_or_default tag burst_config =
     (if length burst_config < 2
      then thenR (emit (LogError (tag @ '' burst is missing parameters, defaulting to 1 second per 2 seconds'' @ [CHR 0x0A])))
                 ([], Inr (1, 2))
      else liftE (bindE (py_int (burst_config ! 0)) (\<lambda>d.
                  bindE (int_truediv d 1000) (\<lambda>burst_duration.
                  bindE (py_int (burst_config ! 1)) (\<lambda>p.
                  bindE (int_truediv p 1000) (\<lambda>burst_period.
                  Inr (burst_duration, burst_period)))))))"

definition burst_count :: "rat \<Rightarrow> rat \<Rightarrow> error + int" where
  "burst_count injection_time burst_period =
     bindE (float_div injection_time burst_period) (\<lambda>q. Inr (int_of_float q))"

definition multi_inject_burst :: "(string \<Rightarrow> int) \<Rightarrow> multi_injector \<Rightarrow> unit run" where
  "multi_inject_burst sh self =
     bindR (burst_config_or_default (m_tag self) (m_fault_pattern_args self)) (\<lambda>(burst_duration, burst_period).
     bindR (liftE (burst_count (m_injection_time self) burst_period)) (\<lambda>burst_num.
     multi_burst_loop sh self (nat burst_num) burst_duration burst_period))"

definition multi_inject_persistent :: "(string \<Rightarrow> int) \<Rightarrow> multi_injector \<Rightarrow> unit run" where
  "multi_inject_persistent sh self =
     thenR (multi_execute_command_for_node sh self (m_target_process_pid self) (m_inject_command self) True)
    (thenR (emit (Sleep (m_injection_time self)))
           (multi_execute_command_for_node sh self (m_target_process_pid self) (m_eject_command self) False))"

fun str_opt :: "string option \<Rightarrow> string" where
  "str_opt None = ''None''"
| "str_opt (Some s) = s"

definition multi_do_injection :: "(string \<Rightarrow> int) \<Rightarrow> multi_injector \<Rightarrow> unit run" where
  "multi_do_injection sh self =
     thenR (emit (Sleep (m_pre_injection_time self)))
    (thenR (if m_fault_pattern self = Some ''burst'' then multi_inject_burst sh self
            else if m_fault_pattern self = Some ''persistent'' then multi_inject_persistent sh self
            else emit (LogError (m_tag self @ '' has unknown fault pattern: '' @ str_opt (m_fault_pattern self) @ [CHR 0x0A])))
           (emit (Sleep (m_post_injection_time self))))"

section \<open>LinkInjector\<close>

text \<open>
  The fields of a link injector. \<^verbatim>\<open>fault_type\<close>, \<^verbatim>\<open>fault_pattern\<close>, the protocol and
  the interface are strings and the two argument lists are lists: with the constructor's
  default \<^verbatim>\<open>None\<close> in one of them the substring tests and \<^verbatim>\<open>len\<close> raise TypeError.
  The port lists keep their \<^verbatim>\<open>None\<close> default, which the code tests for.
  The three times are floats (\<^verbatim>\<open>getInjectionTime\<close> and its siblings convert them).
\<close>

record link_injector =
  l_target_interface :: string
  l_namespace_pid :: "int option"
  l_tag :: string
  l_fault_target_protocol :: string
  l_fault_target_dst_ports :: "int list option"
  l_fault_target_src_ports :: "int list option"
  l_fault_type :: string
  l_fault_pattern :: string
  l_fault_pattern_args :: "pyval list"
  l_fault_args :: "pyval list"
  l_pre_injection_time :: rat
  l_injection_time :: rat
  l_post_injection_time :: rat

definition target_protocol_table :: "string \<Rightarrow> string option" where
  "target_protocol_table = map_of
     [(''ICMP'', ''1''), (''IGMP'', ''2''), (''IP'', ''4''), (''TCP'', ''6''),
      (''UDP'', ''17''), (''IPv6'', ''41''), (''IPv6-ICMP'', ''58'')]"

text \<open>\<^verbatim>\<open>base_command\<close>, computed alike at the head of both synthesizers.\<close>

definition link_base_command :: "int option \<Rightarrow> string" where
  "link_base_command node_pid =
     (case node_pid of
        None \<Rightarrow> []
      | Some p \<Rightarrow> ''nsenter --target '' @ str_int p @ '' --net '')"

text \<open>
  \<^verbatim>\<open>redirect_or_mirror\<close>: \<^verbatim>\<open>fault_args[1]\<close> when it is one of the two modes, and
  \<^verbatim>\<open>'redirect'\<close> when it is missing (the IndexError is caught) or anything else.
\<close>

definition redirect_or_mirror :: "pyval list \<Rightarrow> string" where
  "redirect_or_mirror fault_args =
     (case py_index fault_args 1 of
        Inr (PStr m) \<Rightarrow> if m \<in> set [''mirror'', ''redirect''] then m else ''redirect''
      | _ \<Rightarrow> ''redirect'')"

text \<open>
  \<^verbatim>\<open>boundary = int(maximum_value * (percentage_to_redirect / 100))\<close> with
  \<^verbatim>\<open>maximum_value = 4294967295\<close>: a true division of ints, a float product, a truncation.
\<close>

definition maximum_value :: int where
  "maximum_value = 4294967295"

definition redirect_boundary :: "int \<Rightarrow> error + int" where
  "redirect_boundary percentage_to_redirect =
     bindE (int_truediv percentage_to_redirect 100) (\<lambda>q.
       (let r = fl (of_int maximum_value * q)
        in if float_finite r then Inr (int_of_float r) else Inl OverflowError))"

definition bottleneck_burst_limit :: "pyval list \<Rightarrow> string \<times> string" where
  "bottleneck_burst_limit fault_args =
     (if length fault_args > 2 then (py_str (fault_args ! 1), py_str (fault_args ! 2))
      else if length fault_args = 2 then (py_str (fault_args ! 1), ''3000'')
      else (''1600'', ''3000''))"

definition make_nics_injection_command ::
  "int option \<Rightarrow> string \<Rightarrow> string \<Rightarrow> string \<Rightarrow> pyval list option \<Rightarrow> pyval list \<Rightarrow> string
     \<Rightarrow> string option run" where
  "make_nics_injection_command node_pid device fault_type fault_pattern fault_pattern_args fault_args tc_cmd =
     (let base_command = link_base_command node_pid;
          base_qdisc_netem_command = base_command @ ''tc qdisc '' @ tc_cmd @ '' dev '' @ device @ '' root netem ''
      in
      if py_in ''random'' fault_pattern then
        (if py_in ''delay'' fault_type then
           liftE (bindE (py_index_opt fault_pattern_args 0) (\<lambda>v.
                  bindE (py_int v) (\<lambda>p.
                  bindE (py_index fault_args 0) (\<lambda>a.
                  bindE (as_str a) (\<lambda>a0.
                  Inr (Some (base_qdisc_netem_command @ fault_type @ '' '' @ a0 @ '' reorder ''
                             @ str_int (100 - p) @ ''%'')))))))
         else if py_in ''redirect'' fault_type then
           liftE (bindE (py_index_opt fault_pattern_args 0) (\<lambda>v.
                  bindE (py_int v) (\<lambda>percentage_to_redirect.
                  bindE (redirect_boundary percentage_to_redirect) (\<lambda>boundary.
                  bindE (py_index fault_args 0) (\<lambda>destination_interface.
                  if py_in ''add'' tc_cmd then
                    bindE (as_str destination_interface) (\<lambda>dest.
                      (let filter_string = '' basic match '' @ [CHR 0x22] @ ''meta( random mask ''
                             @ str_int maximum_value @ '' lt '' @ str_int boundary @ '' ) '' @ [CHR 0x22] @ '' '';
                           prep_command = base_command @ ''tc qdisc '' @ tc_cmd @ '' dev '' @ device @ '' handle ffff: ingress '';
                           command = base_command @ ''tc filter '' @ tc_cmd @ '' dev '' @ device
                             @ '' parent ffff: '' @ filter_string @ '' '' @ '' action mirred egress ''
                             @ redirect_or_mirror fault_args @ '' dev '' @ dest
                       in Inr (Some (prep_command @ '' ; '' @ command))))
                  else if py_in ''del'' tc_cmd then
                    Inr (Some (base_command @ ''tc qdisc '' @ tc_cmd @ '' dev '' @ device @ '' ingress ''))
                  else Inr None)))))
         else
           liftE (bindE (py_index_opt fault_pattern_args 0) (\<lambda>v.
                  Inr (Some (base_qdisc_netem_command @ fault_type @ '' '' @ py_str v @ ''%'')))))
      else if py_in ''persistent'' fault_pattern then
        (if py_in ''delay'' fault_type then
           liftE (bindE (py_index fault_args 0) (\<lambda>a.
                  bindE (as_str a) (\<lambda>a0.
                  Inr (Some (base_qdisc_netem_command @ fault_type @ '' '' @ a0)))))
         else if py_in ''bottleneck'' fault_type then
           (case bottleneck_burst_limit fault_args of (default_bottleneck_burst, default_limit_burst) \<Rightarrow>
            liftE (bindE (py_index fault_args 0) (\<lambda>a.
                   bindE (as_str a) (\<lambda>a0.
                   Inr (Some (base_command @ ''tc qdisc '' @ tc_cmd @ '' dev '' @ device @ '' root tbf rate ''
                              @ a0 @ ''kbit burst '' @ default_bottleneck_burst @ '' limit '' @ default_limit_burst))))))
         else if py_in ''redirect'' fault_type then
           liftE (bindE (py_index fault_args 0) (\<lambda>destination_interface.
                  if py_in ''add'' tc_cmd then
                    bindE (as_str destination_interface) (\<lambda>dest.
                      (let prep_command = base_command @ ''tc qdisc '' @ tc_cmd @ '' dev '' @ device @ '' handle ffff: ingress '';
                           command = base_command @ ''tc filter '' @ tc_cmd @ '' dev '' @ device
                             @ '' parent ffff: matchall '' @ '' action mirred egress ''
                             @ redirect_or_mirror fault_args @ '' dev '' @ dest
                       in Inr (Some (prep_command @ '' ; '' @ command))))
                  else if py_in ''del'' tc_cmd then
                    Inr (Some (base_command @ ''tc qdisc '' @ tc_cmd @ '' dev '' @ device @ '' ingress ''))
                  else Inr None))
         else if py_in ''down'' fault_type then
           liftE (if py_in ''add'' tc_cmd then Inr (Some (base_command @ ''ifconfig '' @ device @ '' down''))
                  else if py_in ''del'' tc_cmd then Inr (Some (base_command @ ''ifconfig '' @ device @ '' up''))
                  else Inr None)
         else
           liftE (Inr (Some (base_qdisc_netem_command @ fault_type @ '' 100%''))))
      else
        thenR (emit (LogError (''Fault pattern '' @ fault_pattern @ '' is unknown'' @ [CHR 0x0A])))
              ([], Inr None))"

text \<open>
  The classifier commands of the filtered synthesizer: one per destination port, one per
  source port (a port argument that is \<^verbatim>\<open>None\<close> or empty is falsy and contributes none),
  and the port-less one only when both port arguments are \<^verbatim>\<open>None\<close>.
\<close>

definition port_truthy :: "int list option \<Rightarrow> int list" where
  "port_truthy ports = (case ports of None \<Rightarrow> [] | Some ps \<Rightarrow> ps)"

definition classifier_commands ::
  "string \<Rightarrow> string \<Rightarrow> int list option \<Rightarrow> int list option \<Rightarrow> string list" where
  "classifier_commands base_qdisc_netem_command target_protocol_cmd target_dst_ports target_src_ports =
     map (\<lambda>target_port. base_qdisc_netem_command @ target_protocol_cmd @ '' ''
            @ (''match ip dport '' @ str_int target_port @ '' 0xffff'') @ '' flowid 1:1'')
         (port_truthy target_dst_ports)
     @ map (\<lambda>target_port. base_qdisc_netem_command @ target_protocol_cmd @ '' ''
            @ (''match ip sport '' @ str_int target_port @ '' 0xffff'') @ '' flowid 1:1'')
         (port_truthy target_src_ports)
     @ (if target_dst_ports = None \<and> target_src_ports = None
        then [base_qdisc_netem_command @ target_protocol_cmd @ '' flowid 1:1'']
        else [])"

definition make_filtered_nics_injection_commands ::
  "int option \<Rightarrow> string \<Rightarrow> pyval list \<Rightarrow> string \<Rightarrow> pyval list \<Rightarrow> string \<Rightarrow> string
     \<Rightarrow> int list option \<Rightarrow> int list option \<Rightarrow> bool \<Rightarrow> error + string list" where
  "make_filtered_nics_injection_commands node_pid fault_pattern fault_pattern_args fault_type fault_args
       device target_protocol target_dst_ports target_src_ports enable =
     (let base_command = link_base_command node_pid in
      if enable then
        (let cmd_list0 =
               (if py_in ''redirect'' fault_type
                then [base_command @ ''tc qdisc add dev '' @ device @ '' handle ffff: ingress '']
                else [base_command @ ''tc qdisc add dev '' @ device @ '' root handle 1: prio'']);
             base_qdisc_netem_command = base_command @ ''tc filter add dev '' @ device
               @ '' parent 1:0 protocol ip prio 1 u32 ''
         in
         case target_protocol_table target_protocol of
           None \<Rightarrow> Inl KeyError
         | Some number \<Rightarrow>
            (let target_protocol_cmd = ''match ip protocol '' @ number @ '' 0xff'';
                 cmd_list = cmd_list0 @ classifier_commands base_qdisc_netem_command target_protocol_cmd
                                           target_dst_ports target_src_ports
             in
             if py_in ''random'' fault_pattern then
               (if py_in ''delay'' fault_type then
                  bindE (py_index fault_pattern_args 0) (\<lambda>v.
                  bindE (py_int v) (\<lambda>p.
                  bindE (py_index fault_args 0) (\<lambda>a.
                  bindE (as_str a) (\<lambda>a0.
                  Inr (cmd_list @ [base_command @ ''tc qdisc add dev '' @ device @ '' parent 1:1 handle 2: netem ''
                         @ fault_type @ '' '' @ a0 @ '' reorder '' @ str_int (100 - p) @ ''%''])))))
                else
                  bindE (py_index fault_pattern_args 0) (\<lambda>v.
                  Inr (cmd_list @ [base_command @ ''tc qdisc add dev '' @ device @ '' parent 1:1 handle 2: netem ''
                         @ fault_type @ '' '' @ py_str v @ ''%''])))
             else if py_in ''persistent'' fault_pattern then
               (if py_in ''bottleneck'' fault_type then
                  (case bottleneck_burst_limit fault_args of (default_bottleneck_burst, default_limit_burst) \<Rightarrow>
                   bindE (py_index fault_args 0) (\<lambda>a.
                   bindE (as_str a) (\<lambda>a0.
                   Inr (cmd_list @ [base_command @ ''tc qdisc add dev '' @ device @ '' parent 1:1 handle 2: tbf rate ''
                          @ a0 @ ''kbit burst '' @ default_bottleneck_burst @ '' limit '' @ default_limit_burst]))))
                else if py_in ''redirect'' fault_type then
                  bindE (py_index fault_args 0) (\<lambda>destination_interface.
                  bindE (as_str destination_interface) (\<lambda>dest.
                    (let append_string = '' action mirred egress '' @ redirect_or_mirror fault_args @ '' dev '' @ dest
                     in Inr (map (\<lambda>cmd. if py_in ''match'' cmd
                                          then py_replace ''parent 1:0'' ''parent ffff:'' cmd @ append_string
                                          else cmd) cmd_list))))
                else
                  bindE (if py_in ''delay'' fault_type
                         then bindE (py_index fault_args 0) (\<lambda>a. Inr (py_str a))
                         else Inr ''100%'') (\<lambda>tc_arg.
                  Inr (cmd_list @ [base_command @ ''tc qdisc add dev '' @ device @ '' parent 1:1 handle 2: netem ''
                         @ fault_type @ '' '' @ tc_arg])))
             else Inr cmd_list))
      else
        (if py_in ''redirect'' fault_type
         then Inr [base_command @ ''tc qdisc del dev '' @ device @ '' ingress '']
         else Inr [base_command @ ''tc qdisc del dev '' @ device @ '' root handle 1: prio'']))"

text \<open>
  \<^verbatim>\<open>subprocess.call(command, shell=True)\<close>: a command that is \<^verbatim>\<open>None\<close> raises TypeError
  before anything runs.
\<close>

definition call :: "(string \<Rightarrow> int) \<Rightarrow> string option \<Rightarrow> (string \<times> int) run" where
  "call sh command =
     (case command of
        None \<Rightarrow> ([], Inl TypeError)
      | Some c \<Rightarrow> ([Shell c], Inr (c, sh c)))"

text \<open>The loop of \<^verbatim>\<open>inject_nics\<close> over the filtered command list: run, then log.\<close>

fun link_run_commands :: "(string \<Rightarrow> int) \<Rightarrow> link_injector \<Rightarrow> bool \<Rightarrow> string list \<Rightarrow> unit run" where
  "link_run_commands sh self enable [] = done_run"
| "link_run_commands sh self enable (command # cmd_list) =
     bindR (call sh (Some command)) (\<lambda>(c, retcode).
     thenR (if enable then emit (SetFaultActive (l_tag self) (l_fault_type self) c retcode)
            else emit (SetFaultInactive (l_tag self)))
           (link_run_commands sh self enable cmd_list))"

definition inject_nics ::
  "(string \<Rightarrow> int) \<Rightarrow> link_injector \<Rightarrow> string \<Rightarrow> int option \<Rightarrow> string \<Rightarrow> string \<Rightarrow> pyval list
     \<Rightarrow> pyval list \<Rightarrow> string \<Rightarrow> int list option \<Rightarrow> int list option \<Rightarrow> bool \<Rightarrow> unit run" where
  "inject_nics sh self device node_pid fault_type fault_pattern fault_pattern_args fault_args
       target_protocol target_dst_ports target_src_ports enable =
     (if py_in ''any'' target_protocol then
        bindR (make_nics_injection_command node_pid device fault_type fault_pattern
                 (if fault_pattern_args \<noteq> [] then Some fault_pattern_args else None)
                 fault_args (if enable then ''add'' else ''del'')) (\<lambda>command.
        bindR (call sh command) (\<lambda>(c, retcode).
          if enable then emit (SetFaultActive (l_tag self) (l_fault_type self) c retcode)
          else emit (SetFaultInactive (l_tag self))))
      else
        bindR (liftE (make_filtered_nics_injection_commands node_pid fault_pattern fault_pattern_args
                        fault_type fault_args device target_protocol target_dst_ports target_src_ports enable))
              (link_run_commands sh self enable))"

text \<open>One activation or deactivation of the injector's own fault with a given pattern.\<close>

definition link_toggle ::
  "(string \<Rightarrow> int) \<Rightarrow> link_injector \<Rightarrow> string \<Rightarrow> pyval list \<Rightarrow> bool \<Rightarrow> unit run" where
  "link_toggle sh self fault_pattern fault_pattern_args enable =
     inject_nics sh self (l_target_interface self) (l_namespace_pid self) (l_fault_type self)
       fault_pattern fault_pattern_args (l_fault_args self) (l_fault_target_protocol self)
       (l_fault_target_dst_ports self) (l_fault_target_src_ports self) enable"

fun link_burst_loop :: "(string \<Rightarrow> int) \<Rightarrow> link_injector \<Rightarrow> nat \<Rightarrow> rat \<Rightarrow> rat \<Rightarrow> unit run" where
  "link_burst_loop sh self 0 burst_duration burst_period = done_run"
| "link_burst_loop sh self (Suc n) burst_duration burst_period =
     thenR (link_toggle sh self ''persistent'' [PStr []] True)
    (thenR (emit (Sleep burst_duration))
    (thenR (link_toggle sh self ''persistent'' [PStr []] False)
    (bindR (liftE (float_sub burst_period burst_duration)) (\<lambda>gap.
     thenR (emit (Sleep gap))
           (link_burst_loop sh self n burst_duration burst_period)))))"

text \<open>
  \<^verbatim>\<open>_inject_burst_pattern\<close>: with fewer than two pattern arguments the error is logged and
  the code goes on to read \<^verbatim>\<open>burst_config[0]\<close> and \<^verbatim>\<open>burst_config[1]\<close>.
\<close>

definition link_inject_burst_pattern :: "(string \<Rightarrow> int) \<Rightarrow> link_injector \<Rightarrow> unit run" where
  "link_inject_burst_pattern sh self =
     thenR (if length (l_fault_pattern_args self) < 2
            then emit (LogError (l_tag self @ '' Burst doesn'' @ [CHR 0x27] @ ''t have enough arguments to be defined''))
            else done_run)
    (bindR (liftE (bindE (py_index (l_fault_pattern_args self) 0) (\<lambda>v.
                   bindE (py_float v) (\<lambda>d. float_div d 1000)))) (\<lambda>burst_duration.
     bindR (liftE (bindE (py_index (l_fault_pattern_args self) 1) (\<lambda>v.
                   bindE (py_float v) (\<lambda>p. float_div p 1000)))) (\<lambda>burst_period.
     bindR (liftE (burst_count (l_injection_time self) burst_period)) (\<lambda>burst_num.
     link_burst_loop sh self (nat burst_num) burst_duration burst_period))))"

text \<open>
  The update at the end of a degradation step:
  \<^verbatim>\<open>degradation_value = str(int(degradation_value) + int(degradation_step_size))\<close>, then
  \<^verbatim>\<open>if int(degradation_value) > end_degradation: degradation_value = str(end_degradation)\<close>.
\<close>

definition link_next_degradation_value :: "pyval \<Rightarrow> string \<Rightarrow> int \<Rightarrow> error + pyval" where
  "link_next_degradation_value degradation_value degradation_step_size end_degradation =
     bindE (py_int degradation_value) (\<lambda>a.
     bindE (parse_int degradation_step_size) (\<lambda>b.
       (let s = str_int (a + b) in
        bindE (parse_int s) (\<lambda>c.
        Inr (PStr (if c > end_degradation then str_int end_degradation else s))))))"

fun link_degradation_loop ::
  "(string \<Rightarrow> int) \<Rightarrow> link_injector \<Rightarrow> nat \<Rightarrow> pyval \<Rightarrow> string \<Rightarrow> rat \<Rightarrow> int \<Rightarrow> unit run" where
  "link_degradation_loop sh self 0 degradation_value degradation_step_size degradation_step_length end_degradation = done_run"
| "link_degradation_loop sh self (Suc n) degradation_value degradation_step_size degradation_step_length end_degradation =
     thenR (link_toggle sh self ''random'' [degradation_value] True)
    (thenR (emit (Sleep degradation_step_length))
    (thenR (link_toggle sh self ''random'' [degradation_value] False)
    (bindR (liftE (link_next_degradation_value degradation_value degradation_step_size end_degradation)) (\<lambda>v.
     link_degradation_loop sh self n v degradation_step_size degradation_step_length end_degradation))))"

definition link_inject_degradation_pattern :: "(string \<Rightarrow> int) \<Rightarrow> link_injector \<Rightarrow> unit run" where
  "link_inject_degradation_pattern sh self =
     bindR (liftE (if length (l_fault_pattern_args self) \<ge> 4
                   then bindE (py_int (l_fault_pattern_args self ! 3)) (\<lambda>e. Inr (min e 100))
                   else Inr 100)) (\<lambda>end_degradation.
     bindR (liftE (if length (l_fault_pattern_args self) \<ge> 2
                   then bindE (py_int (l_fault_pattern_args self ! 1)) (\<lambda>l. int_truediv l 1000)
                   else int_truediv 1000 1000)) (\<lambda>degradation_step_length.
     bindR (if length (l_fault_pattern_args self) \<ge> 1
            then ([], Inr (py_str (l_fault_pattern_args self ! 0)))
            else thenR (emit (LogError (l_tag self @ '' does not have enough pattern_args to define degradation step, defaulting to 5'')))
                       ([], Inr (str_int 5))) (\<lambda>degradation_step_size.
     bindR (liftE (burst_count (l_injection_time self) degradation_step_length)) (\<lambda>number_of_steps.
     link_degradation_loop sh self (nat number_of_steps)
       (if length (l_fault_pattern_args self) \<ge> 3 then PStr (py_str (l_fault_pattern_args self ! 2)) else PInt 0)
       degradation_step_size degradation_step_length end_degradation))))"

definition link_inject_persistent_or_random_pattern :: "(string \<Rightarrow> int) \<Rightarrow> link_injector \<Rightarrow> unit run" where
  "link_inject_persistent_or_random_pattern sh self =
     thenR (link_toggle sh self (l_fault_pattern self) (l_fault_pattern_args self) True)
    (thenR (emit (Sleep (l_injection_time self)))
           (link_toggle sh self (l_fault_pattern self) (l_fault_pattern_args self) False))"

definition link_do_injection :: "(string \<Rightarrow> int) \<Rightarrow> link_injector \<Rightarrow> unit run" where
  "link_do_injection sh self =
     thenR (emit (Sleep (l_pre_injection_time self)))
    (thenR (if py_in ''burst'' (l_fault_pattern self) then link_inject_burst_pattern sh self
            else if py_in ''degradation'' (l_fault_pattern self) then link_inject_degradation_pattern sh self
            else link_inject_persistent_or_random_pattern sh self)
           (emit (Sleep (l_post_injection_time self))))"

section \<open>NodeInjector\<close>

text \<open>
  The environment of a node injector: the return code of each shell command, whether the
  command took more than two seconds of wall-clock time (the executor then logs an error),
  the name of the cgroup found by the constructor, the result of \<^verbatim>\<open>_get_cgroup_size\<close>
  (the cgroup's CPU fraction as \<^verbatim>\<open>cgget\<close> reports it, \<^verbatim>\<open>None\<close> when \<^verbatim>\<open>cgget\<close> fails, an
  exception when its output does not parse), and the text that \<^verbatim>\<open>str\<close> gives for the
  injection time inside an f-string.
\<close>

record node_env =
  n_sh :: "string \<Rightarrow> int"
  n_slow :: "string \<Rightarrow> bool"
  n_cpu_cgroup_name :: string
  n_cgroup_size :: "error + rat option"
  n_str_time :: "rat \<Rightarrow> string"

record node_injector =
  n_target_process_pid :: "int option"
  n_tag :: string
  n_fault_type :: "string option"
  n_pre_injection_time :: rat
  n_injection_time :: rat
  n_post_injection_time :: rat
  n_fault_args :: "pyval list"
  n_fault_pattern :: "string option"
  n_fault_pattern_args :: "pyval list"

text \<open>The command string that \<^verbatim>\<open>NodeInjector.execute_command_for_node\<close> hands to the shell.\<close>

definition node_full_command :: "int option \<Rightarrow> string \<Rightarrow> string" where
  "node_full_command pid_of_node command_to_execute =
     (let base_command = ''nsenter --target '' @ str_pid pid_of_node @ '' --net --pid --cgroup '';
          full_command = base_command @ command_to_execute
      in if py_in ''|'' full_command
         then py_replace ''|'' (''nsenter --target '' @ str_pid pid_of_node @ '' --net --pid --cgroup'') full_command
         else full_command)"

text \<open>
  \<^verbatim>\<open>command_to_execute\<close> is \<^verbatim>\<open>None\<close> (only the logger is called) or an argument value;
  an integer there makes the string concatenation raise TypeError.
\<close>

definition slow_command_message :: string where
  "slow_command_message =
     ''Node command took more than 2 seconds to execute. Blocking commands can lead to unexpected outcomes, like logs not generating!''
       @ [CHR 0x0A]"

definition node_execute_command_for_node ::
  "node_env \<Rightarrow> node_injector \<Rightarrow> string \<Rightarrow> int option \<Rightarrow> pyval option \<Rightarrow> bool \<Rightarrow> unit run" where
  "node_execute_command_for_node env self kind pid_of_node command_to_execute enable =
     (case command_to_execute of
        None \<Rightarrow>
          (if enable then emit (SetFaultActive (n_tag self) kind ''Dummy command, no action taken'' 0)
           else emit (SetFaultInactive (n_tag self)))
      | Some v \<Rightarrow>
          bindR (liftE (as_str v)) (\<lambda>cmd.
            (let full_command = node_full_command pid_of_node cmd;
                 retcode = n_sh env full_command
             in thenR (emit (Shell full_command))
               (thenR (if n_slow env full_command then emit (LogError slow_command_message) else done_run)
                  (if enable then emit (SetFaultActive (n_tag self) kind cmd retcode)
                   else emit (SetFaultInactive (n_tag self)))))))"

text \<open>
  \<^verbatim>\<open>_get_cgroup_size\<close>: when \<^verbatim>\<open>cgget\<close> fails the error is logged and \<^verbatim>\<open>None\<close> returned.
\<close>

definition get_cgroup_size :: "node_env \<Rightarrow> rat option run" where
  "get_cgroup_size env =
     (case n_cgroup_size env of
        Inl e \<Rightarrow> ([], Inl e)
      | Inr None \<Rightarrow>
          thenR (emit (LogError (''Tried to find cgroup size for '' @ n_cpu_cgroup_name env
                    @ '', but couldn'' @ [CHR 0x27] @ ''t find it'' @ [CHR 0x0A])))
                ([], Inr None)
      | Inr (Some f) \<Rightarrow> ([], Inr (Some f)))"

text \<open>
  The start and end command of a custom fault as \<^verbatim>\<open>_inject_burst\<close> and
  \<^verbatim>\<open>_inject_degradation\<close> select them.
\<close>

definition node_custom_commands :: "node_injector \<Rightarrow> (pyval option \<times> pyval option) run" where
  "node_custom_commands self =
     (if length (n_fault_args self) \<ge> 2
      then ([], Inr (Some (n_fault_args self ! 0), Some (n_fault_args self ! 1)))
      else if length (n_fault_args self) \<ge> 1
      then ([], Inr (Some (n_fault_args self ! 0), None))
      else thenR (emit (LogError (n_tag self @ '' missing fault args for injection'' @ [CHR 0x0A])))
                 ([], Inr (None, None)))"

text \<open>
  The split of a total stress percentage over CPUs:
  \<^verbatim>\<open>num_cpus = math.ceil(x / 100)\<close> and
  \<^verbatim>\<open>stress_per_cpu = int(x / num_cpus) if num_cpus > 0 else 0\<close>.
\<close>

definition stress_split :: "rat \<Rightarrow> error + (int \<times> int)" where
  "stress_split x =
     bindE (float_div x 100) (\<lambda>y.
       (let num_cpus = py_ceil y in
        if num_cpus > 0
        then bindE (float_of_int num_cpus) (\<lambda>nf.
             bindE (float_div x nf) (\<lambda>z. Inr (int_of_float z, num_cpus)))
        else Inr (0, num_cpus)))"

text \<open>\<^verbatim>\<open>intensity * cgroup_fraction\<close> with an int on the left; a \<^verbatim>\<open>None\<close> fraction raises TypeError.\<close>

definition int_times_fraction :: "int \<Rightarrow> rat option \<Rightarrow> error + rat" where
  "int_times_fraction i cgroup_fraction =
     (case cgroup_fraction of
        None \<Rightarrow> Inl TypeError
      | Some f \<Rightarrow> bindE (float_of_int i) (\<lambda>x. float_mul x f))"

definition stress_command :: "string \<Rightarrow> string \<Rightarrow> string \<Rightarrow> string" where
  "stress_command stress_per_cpu duration num_cpus =
     ''stress-ng -l '' @ stress_per_cpu @ '' -t '' @ duration @ '' --cpu '' @ num_cpus
       @ '' --cpu-method int64longdouble &''"

fun node_burst_loop ::
  "node_env \<Rightarrow> node_injector \<Rightarrow> string \<Rightarrow> nat \<Rightarrow> pyval option \<Rightarrow> pyval option \<Rightarrow> rat \<Rightarrow> rat \<Rightarrow> unit run" where
  "node_burst_loop env self kind 0 start_command end_command burst_duration burst_period = done_run"
| "node_burst_loop env self kind (Suc n) start_command end_command burst_duration burst_period =
     thenR (node_execute_command_for_node env self kind (n_target_process_pid self) start_command True)
    (thenR (emit (Sleep burst_duration))
    (thenR (node_execute_command_for_node env self kind (n_target_process_pid self) end_command False)
    (bindR (liftE (float_sub burst_period burst_duration)) (\<lambda>gap.
     thenR (emit (Sleep gap))
           (node_burst_loop env self kind n start_command end_command burst_duration burst_period)))))"

definition node_inject_burst :: "node_env \<Rightarrow> node_injector \<Rightarrow> unit run" where
  "node_inject_burst env self =
     bindR (burst_config_or_default (n_tag self) (n_fault_pattern_args self)) (\<lambda>(burst_duration, burst_period).
     bindR (liftE (burst_count (n_injection_time self) burst_period)) (\<lambda>burst_num.
     if n_fault_type self = Some ''custom'' then
       bindR (node_custom_commands self) (\<lambda>(start_command, end_command).
       node_burst_loop env self ''custom'' (nat burst_num) start_command end_command burst_duration burst_period)
     else if n_fault_type self = Some ''stress_cpu'' then
       (let stress_duration = (if 1 < burst_duration then int_of_float burst_duration else 1) in
        bindR (get_cgroup_size env) (\<lambda>cgroup_fraction.
        bindR (if length (n_fault_args self) \<ge> 1 then liftE (py_int (n_fault_args self ! 0))
               else thenR (emit (LogError (n_tag self @ '' is missing stress intensity, defaulting to 50%'')))
                          ([], Inr 50)) (\<lambda>cpu_stress_percentage.
        bindR (liftE (bindE (int_times_fraction cpu_stress_percentage cgroup_fraction) stress_split))
          (\<lambda>(stress_per_cpu, num_cpus).
        node_burst_loop env self ''stress_cpu'' (nat burst_num)
          (Some (PStr (stress_command (str_int stress_per_cpu) (str_int stress_duration) (str_int num_cpus))))
          None (of_int stress_duration) burst_period))))
     else emit (LogError (n_tag self @ '' has unknown fault type: '' @ str_opt (n_fault_type self) @ [CHR 0x0A]))))"

text \<open>
  The custom branch of \<^verbatim>\<open>_inject_degradation\<close>. The start command is a template; an
  argument that is \<^verbatim>\<open>None\<close> or an int has no \<^verbatim>\<open>count\<close> method.
\<close>

definition template_of :: "pyval option \<Rightarrow> error + string" where
  "template_of start_base_command =
     (case start_base_command of
        Some (PStr s) \<Rightarrow> Inr s
      | _ \<Rightarrow> Inl AttributeError)"

fun node_custom_degradation_loop ::
  "node_env \<Rightarrow> node_injector \<Rightarrow> nat \<Rightarrow> string \<Rightarrow> pyval option \<Rightarrow> int \<Rightarrow> int \<Rightarrow> int \<Rightarrow> rat \<Rightarrow> unit run" where
  "node_custom_degradation_loop env self 0 start_base_command end_base_command
       injection_intensity degradation_step_size end_degradation degradation_step_length = done_run"
| "node_custom_degradation_loop env self (Suc n) start_base_command end_base_command
       injection_intensity degradation_step_size end_degradation degradation_step_length =
     bindR (liftE (py_format start_base_command [str_int injection_intensity])) (\<lambda>start_command.
     thenR (node_execute_command_for_node env self ''custom'' (n_target_process_pid self) (Some (PStr start_command)) True)
    (thenR (emit (Sleep degradation_step_length))
    (thenR (node_execute_command_for_node env self ''custom'' (n_target_process_pid self) end_base_command False)
           (node_custom_degradation_loop env self n start_base_command end_base_command
              (min (injection_intensity + degradation_step_size) end_degradation)
              degradation_step_size end_degradation degradation_step_length))))"

fun node_stress_degradation_loop ::
  "node_env \<Rightarrow> node_injector \<Rightarrow> nat \<Rightarrow> rat option \<Rightarrow> int \<Rightarrow> int \<Rightarrow> int \<Rightarrow> rat \<Rightarrow> unit run" where
  "node_stress_degradation_loop env self 0 cgroup_fraction
       injection_intensity degradation_step_size end_degradation degradation_step_length = done_run"
| "node_stress_degradation_loop env self (Suc n) cgroup_fraction
       injection_intensity degradation_step_size end_degradation degradation_step_length =
     bindR (liftE (bindE (int_times_fraction injection_intensity cgroup_fraction) stress_split))
       (\<lambda>(stress_per_cpu, num_cpus).
     thenR (node_execute_command_for_node env self ''stress_cpu'' (n_target_process_pid self)
              (Some (PStr (stress_command (str_int stress_per_cpu)
                             (str_int (int_of_float degradation_step_length)) (str_int num_cpus)))) True)
    (thenR (emit (Sleep (of_int (int_of_float degradation_step_length))))
    (thenR (node_execute_command_for_node env self ''stress_cpu'' (n_target_process_pid self) None False)
           (node_stress_degradation_loop env self n cgroup_fraction
              (min (injection_intensity + degradation_step_size) end_degradation)
              degradation_step_size end_degradation degradation_step_length))))"

definition node_inject_degradation :: "node_env \<Rightarrow> node_injector \<Rightarrow> unit run" where
  "node_inject_degradation env self =
     bindR (liftE (if length (n_fault_pattern_args self) \<ge> 4 then py_int (n_fault_pattern_args self ! 3)
                   else Inr 100)) (\<lambda>end_degradation.
     bindR (liftE (if length (n_fault_pattern_args self) \<ge> 3 then py_int (n_fault_pattern_args self ! 2)
                   else Inr 0)) (\<lambda>start_degradation.
     bindR (liftE (if length (n_fault_pattern_args self) \<ge> 2
                   then bindE (py_int (n_fault_pattern_args self ! 1)) (\<lambda>l. int_truediv l 1000)
                   else int_truediv 1000 1000)) (\<lambda>degradation_step_length.
     bindR (if length (n_fault_pattern_args self) \<ge> 1 then liftE (py_int (n_fault_pattern_args self ! 0))
            else thenR (emit (LogError (n_tag self @ '' does not have enough pattern_args to define degradation step, defaulting to 5'')))
                       ([], Inr 5)) (\<lambda>degradation_step_size.
     bindR (liftE (burst_count (n_injection_time self) degradation_step_length)) (\<lambda>number_of_steps.
     if n_fault_type self = Some ''custom'' then
       bindR (node_custom_commands self) (\<lambda>(start_base_command, end_base_command).
       bindR (liftE (template_of start_base_command)) (\<lambda>template.
       thenR (if py_count ''{}'' template > 1
              then emit (LogError (n_tag self @ '' contains more than one place to insert arguments, but currently only supports one!''))
              else done_run)
             (node_custom_degradation_loop env self (nat number_of_steps) template end_base_command
                start_degradation degradation_step_size end_degradation degradation_step_length)))
     else if n_fault_type self = Some ''stress_cpu'' then
       bindR (get_cgroup_size env) (\<lambda>cgroup_fraction.
       node_stress_degradation_loop env self (nat number_of_steps) cgroup_fraction
         start_degradation degradation_step_size end_degradation degradation_step_length)
     else emit (LogError (n_tag self @ '' has unknown fault type: '' @ str_opt (n_fault_type self) @ [CHR 0x0A])))))))"

text \<open>
  \<^verbatim>\<open>_inject_persistent\<close>. The custom branch tests \<^verbatim>\<open>len(self.fault_args) < 2\<close> before
  \<^verbatim>\<open>len(self.fault_args) < 1\<close>, in this order.
\<close>

definition node_persistent_commands :: "node_injector \<Rightarrow> (pyval option \<times> pyval option) run" where
  "node_persistent_commands self =
     (if length (n_fault_args self) < 2
      then liftE (bindE (py_index (n_fault_args self) 0) (\<lambda>start_command. Inr (Some start_command, None)))
      else if length (n_fault_args self) < 1
      then thenR (emit (LogError (n_tag self @ '' doesn'' @ [CHR 0x27] @ ''t have enough arguments! '')))
                 ([], Inr (None, None))
      else liftE (bindE (py_index (n_fault_args self) 0) (\<lambda>start_command.
                  bindE (py_index (n_fault_args self) 1) (\<lambda>end_command.
                  Inr (Some start_command, Some end_command)))))"

definition node_inject_persistent :: "node_env \<Rightarrow> node_injector \<Rightarrow> unit run" where
  "node_inject_persistent env self =
     (if n_fault_type self = Some ''custom'' then
        bindR (node_persistent_commands self) (\<lambda>(start_command, end_command).
        thenR (node_execute_command_for_node env self ''custom'' (n_target_process_pid self) start_command True)
       (thenR (emit (Sleep (n_injection_time self)))
              (node_execute_command_for_node env self ''custom'' (n_target_process_pid self) end_command False)))
      else if n_fault_type self = Some ''stress_cpu'' then
        bindR (bindR (get_cgroup_size env) (\<lambda>size.
                 case size of None \<Rightarrow> ([], Inl TypeError) | Some f \<Rightarrow> ([], Inr f))) (\<lambda>cgroup_fraction.
        bindR (if length (n_fault_args self) < 1
               then thenR (emit (LogError (n_tag self @ '' doesn'' @ [CHR 0x27] @ ''t define stress intensity! defaulting to 50%'')))
                          ([], Inr 50)
               else liftE (py_float (n_fault_args self ! 0))) (\<lambda>cpu_stress_percentage.
        bindR (liftE (bindE (float_mul cpu_stress_percentage cgroup_fraction) stress_split))
          (\<lambda>(stress_per_cpu, num_cpus).
        thenR (node_execute_command_for_node env self ''stress_cpu'' (n_target_process_pid self)
                 (Some (PStr (stress_command (str_int stress_per_cpu)
                                (n_str_time env (n_injection_time self)) (str_int num_cpus)))) True)
       (thenR (emit (Sleep (n_injection_time self)))
              (node_execute_command_for_node env self ''stress_cpu'' (n_target_process_pid self) None False)))))
      else emit (LogError (n_tag self @ '' unknown fault type: '' @ str_opt (n_fault_type self))))"

definition node_do_injection :: "node_env \<Rightarrow> node_injector \<Rightarrow> unit run" where
  "node_do_injection env self =
     thenR (emit (Sleep (n_pre_injection_time self)))
    (thenR (if n_fault_pattern self = Some ''burst'' then node_inject_burst env self
            else if n_fault_pattern self = Some ''degradation'' then node_inject_degradation env self
            else if n_fault_pattern self = Some ''persistent'' then node_inject_persistent env self
            else emit (LogError (n_tag self @ '' has unknown fault pattern'')))
           (emit (Sleep (n_post_injection_time self))))"

section \<open>Properties\<close>

subsection \<open>Evaluation rules\<close>

lemma floor_rat_numeral [simp]: "\<lfloor>numeral a / numeral b :: rat\<rfloor> = numeral a div numeral b"
  using floor_divide_of_int_eq [of "numeral a" "numeral b", where ?'a = rat] by simp

lemma floor_rat_neg_numeral [simp]: "\<lfloor>- (numeral a / numeral b) :: rat\<rfloor> = - numeral a div numeral b"
  using floor_divide_of_int_eq [of "- numeral a" "numeral b", where ?'a = rat] by simp

lemma ceiling_rat_numeral [simp]: "\<lceil>numeral a / numeral b :: rat\<rceil> = - (- numeral a div numeral b)"
  unfolding ceiling_def by simp

lemma ceiling_rat_neg_numeral [simp]: "\<lceil>- (numeral a / numeral b) :: rat\<rceil> = - (numeral a div numeral b)"
  unfolding ceiling_def by simp

lemma bitlen_nonpos: "n \<le> 0 \<Longrightarrow> bitlen n = 0"
  by (simp add: bitlen.simps)

lemma bitlen_pos: "0 < n \<Longrightarrow> bitlen n = 1 + bitlen (n div 2)"
  by (subst bitlen.simps) simp

lemma str_nat_digit: "n < 10 \<Longrightarrow> str_nat n = [digit_char n]"
  by (simp add: str_nat.simps)

lemma str_nat_more: "10 \<le> n \<Longrightarrow> str_nat n = str_nat (n div 10) @ [digit_char (n mod 10)]"
  by (subst str_nat.simps) simp

lemma bindE_Inl [simp]: "bindE (Inl e) f = Inl e"
  by (simp add: bindE_def)

lemma bindE_Inr [simp]: "bindE (Inr x) f = f x"
  by (simp add: bindE_def)

lemma bindR_Inl [simp]: "bindR (es, Inl e) f = (es, Inl e)"
  by (simp add: bindR_def)

lemma bindR_Inr [simp]: "bindR (es, Inr x) f = prepend es (f x)"
  by (simp add: bindR_def)

lemma thenR_Inl [simp]: "thenR (es, Inl e) k = (es, Inl e)"
  by (simp add: thenR_def)

lemma thenR_Inr [simp]: "thenR (es, Inr u) k = prepend es k"
  by (simp add: thenR_def)

text \<open>Congruence rules that evaluate the first computation of a bind before its continuation.\<close>

lemma bindE_first: "m = m' \<Longrightarrow> bindE m f = bindE m' f"
  by simp

lemma bindR_first: "m = m' \<Longrightarrow> bindR m f = bindR m' f"
  by simp

lemma thenR_first: "m = m' \<Longrightarrow> thenR m k = thenR m' k"
  by simp

lemma float_finite_eval:
  "float_finite r = (\<bar>r\<bar> < 179769313486231590772930519078902473361797697894230657273430081157732675805500963132708477322407536021120113879871393357658789768814416622492847430639474124377767893424865485276302219601246094119453082952085005768838150682342462881473913110540827237163350510684586298239947245938479716304835356329624224137216)"
  by (simp add: float_finite_def pow2_def)

lemmas fl_eval = fl_def ilog2_def bitlen_nonpos bitlen_pos pow2_def round_half_even_def Let_def
  float_finite_eval int_truediv_def float_of_int_def float_div_def float_mul_def float_sub_def
  int_of_float_def py_ceil_def

lemmas str_eval = str_int_def str_nat_digit str_nat_more digit_char_def

lemmas run_eval = emit_def done_run_def liftE_def

lemmas parse_eval = parse_int_def strip_def is_space_def is_digit_def digit_val_def
  parse_float_def parse_decimal_def py_index_def

lemmas link_eval = link_do_injection_def link_inject_burst_pattern_def link_inject_degradation_pattern_def
  link_inject_persistent_or_random_pattern_def link_toggle_def inject_nics_def call_def
  make_nics_injection_command_def make_filtered_nics_injection_commands_def classifier_commands_def
  port_truthy_def link_base_command_def redirect_or_mirror_def redirect_boundary_def maximum_value_def
  bottleneck_burst_limit_def target_protocol_table_def burst_count_def link_next_degradation_value_def

lemmas node_eval = node_do_injection_def node_inject_burst_def node_inject_degradation_def
  node_inject_persistent_def node_persistent_commands_def node_custom_commands_def
  node_execute_command_for_node_def node_full_command_def template_of_def stress_split_def
  get_cgroup_size_def slow_command_message_def
  int_times_fraction_def stress_command_def burst_config_or_default_def burst_count_def

lemmas multi_eval = multi_do_injection_def multi_inject_burst_def multi_inject_persistent_def
  multi_execute_command_for_node_def multi_full_command_def burst_config_or_default_def burst_count_def

subsection \<open>C1: the pipeline rewrite of the executors\<close>

lemma py_replace_pipe_no_pipe:
  "CHR ''|'' \<notin> set new \<Longrightarrow> CHR ''|'' \<notin> set (py_replace ''|'' new s)"
  by (induction s) auto

text \<open>
  C1. The claim says every \<^verbatim>\<open>|\<close> of the prefixed command is replaced by \<^verbatim>\<open>| {prefix}\<close>,
  so that the pipe is retained. The executors call
  \<^verbatim>\<open>full_command.replace("|", prefix)\<close>: the pipe itself is dropped. At pid 100 and the
  command \<^verbatim>\<open>echo x | cat\<close> the string handed to the shell by the Multi injector and by the
  Node injector contains no \<^verbatim>\<open>|\<close> at all: the two pipeline stages have become the
  arguments of one \<^verbatim>\<open>echo\<close>.
\<close>

theorem c1_pipe_dropped:
  "multi_full_command (Some 100) ''echo x | cat''
     = ''nsenter --target 100 --net --pid echo x nsenter --target 100 --net --pid  cat''
   \<and> node_full_command (Some 100) ''echo x | cat''
     = ''nsenter --target 100 --net --pid --cgroup echo x nsenter --target 100 --net --pid --cgroup cat''
   \<and> py_count ''|'' (multi_full_command (Some 100) ''echo x | cat'') = 0
   \<and> py_count ''|'' (node_full_command (Some 100) ''echo x | cat'') = 0"
  by (simp add: multi_full_command_def node_full_command_def str_eval)

lemma multi_burst_loop_numeral:
  "multi_burst_loop sh self (numeral k) d p = multi_burst_loop sh self (Suc (pred_numeral k)) d p"
  by (simp only: numeral_eq_Suc)

lemma link_burst_loop_numeral:
  "link_burst_loop sh self (numeral k) d p = link_burst_loop sh self (Suc (pred_numeral k)) d p"
  by (simp only: numeral_eq_Suc)

lemma link_degradation_loop_numeral:
  "link_degradation_loop sh self (numeral k) v s l e = link_degradation_loop sh self (Suc (pred_numeral k)) v s l e"
  by (simp only: numeral_eq_Suc)

lemma node_burst_loop_numeral:
  "node_burst_loop env self kind (numeral k) a b d p = node_burst_loop env self kind (Suc (pred_numeral k)) a b d p"
  by (simp only: numeral_eq_Suc)

lemma node_custom_degradation_loop_numeral:
  "node_custom_degradation_loop env self (numeral k) a b i s e l
     = node_custom_degradation_loop env self (Suc (pred_numeral k)) a b i s e l"
  by (simp only: numeral_eq_Suc)

lemma node_stress_degradation_loop_numeral:
  "node_stress_degradation_loop env self (numeral k) c i s e l
     = node_stress_degradation_loop env self (Suc (pred_numeral k)) c i s e l"
  by (simp only: numeral_eq_Suc)

lemmas loop_eval = multi_burst_loop_numeral link_burst_loop_numeral link_degradation_loop_numeral
  node_burst_loop_numeral node_custom_degradation_loop_numeral node_stress_degradation_loop_numeral


lemmas eval_cong = bindE_first bindR_first thenR_first

subsection \<open>C5: an unknown fault pattern\<close>

text \<open>
  The Multi and the Node scheduler log an error for a pattern they do not know and go
  straight to the post-injection wait.
\<close>

lemma multi_unknown_pattern:
  "m_fault_pattern self \<noteq> Some ''burst'' \<Longrightarrow> m_fault_pattern self \<noteq> Some ''persistent'' \<Longrightarrow>
   multi_do_injection sh self =
     ([Sleep (m_pre_injection_time self),
       LogError (m_tag self @ '' has unknown fault pattern: '' @ str_opt (m_fault_pattern self) @ [CHR 0x0A]),
       Sleep (m_post_injection_time self)], Inr ())"
  by (simp add: multi_do_injection_def run_eval)

lemma node_unknown_pattern:
  "n_fault_pattern self \<noteq> Some ''burst'' \<Longrightarrow> n_fault_pattern self \<noteq> Some ''degradation'' \<Longrightarrow>
   n_fault_pattern self \<noteq> Some ''persistent'' \<Longrightarrow>
   node_do_injection env self =
     ([Sleep (n_pre_injection_time self),
       LogError (n_tag self @ '' has unknown fault pattern''),
       Sleep (n_post_injection_time self)], Inr ())"
  by (simp add: node_do_injection_def run_eval)

text \<open>
  The Link scheduler dispatches on substrings and sends every other pattern to
  \<^verbatim>\<open>_inject_persistent_or_random_pattern\<close>. With a protocol filter the filtered
  synthesizer then emits the root qdisc and the classifier (only the leaf is skipped), and
  they are executed and logged as an active fault; without a filter the unfiltered
  synthesizer logs the unknown pattern and returns \<^verbatim>\<open>None\<close>, which \<^verbatim>\<open>call\<close> rejects with
  a TypeError, so that the post-injection wait never happens.
\<close>

lemma c5_link_unknown_pattern_unfiltered:
  "link_do_injection (\<lambda>_. 0)
     \<lparr> l_target_interface = ''eth0'', l_namespace_pid = Some 100, l_tag = ''f1'',
       l_fault_target_protocol = ''any'', l_fault_target_dst_ports = None,
       l_fault_target_src_ports = None, l_fault_type = ''loss'', l_fault_pattern = ''foo'',
       l_fault_pattern_args = [], l_fault_args = [], l_pre_injection_time = 1,
       l_injection_time = 5, l_post_injection_time = 2 \<rparr>
   = ([Sleep 1, LogError (''Fault pattern foo is unknown'' @ [CHR 0x0A])], Inl TypeError)"
  by (simp add: link_eval run_eval str_eval parse_eval cong: eval_cong)

text \<open>
  C5. The claim says that for an unrecognised pattern all three injectors log an error,
  synthesize and execute nothing, and still sleep before and after. The Link injector with
  pattern \<^verbatim>\<open>foo\<close> and protocol TCP executes two \<^verbatim>\<open>tc\<close> commands, logs the fault active
  twice and logs no error.
\<close>

theorem c5_link_unknown_pattern_runs_commands:
  "link_do_injection (\<lambda>_. 0)
     \<lparr> l_target_interface = ''eth0'', l_namespace_pid = Some 100, l_tag = ''f1'',
       l_fault_target_protocol = ''TCP'', l_fault_target_dst_ports = None,
       l_fault_target_src_ports = None, l_fault_type = ''loss'', l_fault_pattern = ''foo'',
       l_fault_pattern_args = [], l_fault_args = [], l_pre_injection_time = 1,
       l_injection_time = 5, l_post_injection_time = 2 \<rparr>
   = ([Sleep 1,
       Shell ''nsenter --target 100 --net tc qdisc add dev eth0 root handle 1: prio'',
       SetFaultActive ''f1'' ''loss'' ''nsenter --target 100 --net tc qdisc add dev eth0 root handle 1: prio'' 0,
       Shell ''nsenter --target 100 --net tc filter add dev eth0 parent 1:0 protocol ip prio 1 u32 match ip protocol 6 0xff flowid 1:1'',
       SetFaultActive ''f1'' ''loss'' ''nsenter --target 100 --net tc filter add dev eth0 parent 1:0 protocol ip prio 1 u32 match ip protocol 6 0xff flowid 1:1'' 0,
       Sleep 5,
       Shell ''nsenter --target 100 --net tc qdisc del dev eth0 root handle 1: prio'',
       SetFaultInactive ''f1'',
       Sleep 2], Inr ())"
  by (simp add: link_eval run_eval str_eval parse_eval cong: eval_cong)

subsection \<open>C6: a burst with missing pattern arguments\<close>

text \<open>
  C6. The claim says that a burst with fewer than two pattern arguments logs an error and
  goes on with the defaults of one second per two seconds, in every injector. The Link
  injector logs the error and then indexes the empty list: the task ends with IndexError
  after the pre-injection wait.
\<close>

theorem c6_link_burst_missing_args_raises:
  "link_do_injection (\<lambda>_. 0)
     \<lparr> l_target_interface = ''eth0'', l_namespace_pid = Some 100, l_tag = ''f1'',
       l_fault_target_protocol = ''any'', l_fault_target_dst_ports = None,
       l_fault_target_src_ports = None, l_fault_type = ''delay'', l_fault_pattern = ''burst'',
       l_fault_pattern_args = [], l_fault_args = [PStr ''100ms''], l_pre_injection_time = 1,
       l_injection_time = 5, l_post_injection_time = 2 \<rparr>
   = ([Sleep 1, LogError (''f1 Burst doesn'' @ [CHR 0x27] @ ''t have enough arguments to be defined'')],
      Inl IndexError)"
  by (simp add: link_eval run_eval str_eval parse_eval cong: eval_cong)

subsection \<open>C9: a protocol filter without ports\<close>

lemma c9_none_ports_one_classifier:
  "classifier_commands b p None None = [b @ p @ '' flowid 1:1'']"
  by (simp add: classifier_commands_def port_truthy_def)

text \<open>
  C9. The claim says that a filtered fault whose two port sets are empty gets exactly one
  classifier, matching the protocol only. The code appends that classifier only when both
  port arguments are \<^verbatim>\<open>None\<close>; with two empty lists the add list is the root qdisc followed
  directly by the leaf, with no classifier at all.
\<close>

theorem c9_empty_port_lists_no_classifier:
  "make_filtered_nics_injection_commands (Some 100) ''random'' [PInt 10] ''loss'' [] ''eth0'' ''TCP''
      (Some []) (Some []) True
   = Inr [''nsenter --target 100 --net tc qdisc add dev eth0 root handle 1: prio'',
          ''nsenter --target 100 --net tc qdisc add dev eth0 parent 1:1 handle 2: netem loss 10%'']"
  by (simp add: link_eval str_eval parse_eval cong: eval_cong)

subsection \<open>C10: a persistent custom fault without commands\<close>

lemma not_enough_arguments_not_slow:
  "tag @ '' doesn'' @ [CHR 0x27] @ ''t have enough arguments! '' \<noteq> slow_command_message"
proof
  assume "tag @ '' doesn'' @ [CHR 0x27] @ ''t have enough arguments! '' = slow_command_message"
  then have "last (tag @ '' doesn'' @ [CHR 0x27] @ ''t have enough arguments! '') = last slow_command_message"
    by (rule arg_cong)
  then show False
    by (simp add: slow_command_message_def)
qed

lemma node_execute_log_errors:
  "LogError m \<in> set (fst (node_execute_command_for_node env self kind pid c enable))
     \<Longrightarrow> m = slow_command_message"
  by (auto simp: node_execute_command_for_node_def run_eval bindR_def thenR_def Let_def
        split: option.splits sum.splits if_splits)

lemma node_persistent_commands_events:
  "fst (node_persistent_commands self) = []"
  by (auto simp: node_persistent_commands_def run_eval py_index_def)

text \<open>
  C10. In the custom branch of \<^verbatim>\<open>_inject_persistent\<close> the test \<^verbatim>\<open>len(fault_args) < 1\<close>
  comes after \<^verbatim>\<open>len(fault_args) < 2\<close>, so its branch is dead: no run of the custom branch
  logs its message "doesn't have enough arguments! ", and with an empty \<^verbatim>\<open>fault_args\<close> the
  function raises IndexError at \<^verbatim>\<open>fault_args[0]\<close> before anything is executed or logged.
\<close>

theorem c10_persistent_empty_fault_args:
  assumes "n_fault_type self = Some ''custom''"
  shows "(n_fault_args self = [] \<longrightarrow> node_inject_persistent env self = ([], Inl IndexError))
       \<and> LogError (n_tag self @ '' doesn'' @ [CHR 0x27] @ ''t have enough arguments! '')
             \<notin> set (fst (node_inject_persistent env self))"
proof
  show "n_fault_args self = [] \<longrightarrow> node_inject_persistent env self = ([], Inl IndexError)"
    using assms
    by (simp add: node_inject_persistent_def node_persistent_commands_def run_eval py_index_def)
next
  show "LogError (n_tag self @ '' doesn'' @ [CHR 0x27] @ ''t have enough arguments! '')
          \<notin> set (fst (node_inject_persistent env self))"
  proof
    assume mem: "LogError (n_tag self @ '' doesn'' @ [CHR 0x27] @ ''t have enough arguments! '')
                   \<in> set (fst (node_inject_persistent env self))"
    obtain es r where pc: "node_persistent_commands self = (es, r)"
      by (cases "node_persistent_commands self")
    have es: "es = []"
      using node_persistent_commands_events [of self] pc by simp
    have "n_tag self @ '' doesn'' @ [CHR 0x27] @ ''t have enough arguments! '' = slow_command_message"
    proof (cases r)
      case (Inl e)
      with mem pc es assms show ?thesis
        by (simp add: node_inject_persistent_def)
    next
      case (Inr cmds)
      obtain sc ec where cmds: "cmds = (sc, ec)"
        by (cases cmds)
      obtain es1 r1 where e1: "node_execute_command_for_node env self ''custom'' (n_target_process_pid self) sc True = (es1, r1)"
        by (cases "node_execute_command_for_node env self ''custom'' (n_target_process_pid self) sc True")
      obtain es2 r2 where e2: "node_execute_command_for_node env self ''custom'' (n_target_process_pid self) ec False = (es2, r2)"
        by (cases "node_execute_command_for_node env self ''custom'' (n_target_process_pid self) ec False")
      have "LogError (n_tag self @ '' doesn'' @ [CHR 0x27] @ ''t have enough arguments! '') \<in> set es1 \<union> set es2"
        using mem pc es assms Inr cmds e1 e2
        by (cases r1) (auto simp: node_inject_persistent_def run_eval)
      then show ?thesis
        using node_execute_log_errors [of _ env self "''custom''" "n_target_process_pid self" sc True]
              node_execute_log_errors [of _ env self "''custom''" "n_target_process_pid self" ec False]
              e1 e2
        by auto
    qed
    then show False
      using not_enough_arguments_not_slow by blast
  qed
qed

theorem c10_persistent_empty_fault_args_witness:
  "node_inject_persistent
     \<lparr> n_sh = (\<lambda>_. 0), n_slow = (\<lambda>_. True), n_cpu_cgroup_name = ''docker/abc'',
       n_cgroup_size = Inr None, n_str_time = (\<lambda>_. ''5'') \<rparr>
     \<lparr> n_target_process_pid = Some 100, n_tag = ''f1'', n_fault_type = Some ''custom'',
       n_pre_injection_time = 1, n_injection_time = 5, n_post_injection_time = 2,
       n_fault_args = [], n_fault_pattern = Some ''persistent'', n_fault_pattern_args = [] \<rparr>
   = ([], Inl IndexError)"
  using c10_persistent_empty_fault_args [of
     "\<lparr> n_target_process_pid = Some 100, n_tag = ''f1'', n_fault_type = Some ''custom'',
       n_pre_injection_time = 1, n_injection_time = 5, n_post_injection_time = 2,
       n_fault_args = [], n_fault_pattern = Some ''persistent'', n_fault_pattern_args = [] \<rparr>"
     "\<lparr> n_sh = (\<lambda>_. 0), n_slow = (\<lambda>_. True), n_cpu_cgroup_name = ''docker/abc'',
       n_cgroup_size = Inr None, n_str_time = (\<lambda>_. ''5'') \<rparr>"]
  by simp

subsection \<open>C8: a custom degradation template with two placeholders\<close>

text \<open>
  C8. The claim says that a custom degradation fault whose start command has more than one
  \<^verbatim>\<open>{}\<close> placeholder logs a usage error and still completes its timeline. The code logs
  the error and then formats the template with the single intensity argument in the first
  step: \<^verbatim>\<open>'set_rate {} {}'.format(0)\<close> raises IndexError, so the task ends after the
  pre-injection wait and the error line, with no step run and no post-injection wait.
\<close>

theorem c8_two_placeholders_raise:
  "node_do_injection
     \<lparr> n_sh = (\<lambda>_. 0), n_slow = (\<lambda>_. False), n_cpu_cgroup_name = ''docker/abc'',
       n_cgroup_size = Inr None, n_str_time = (\<lambda>_. ''5'') \<rparr>
     \<lparr> n_target_process_pid = Some 100, n_tag = ''f1'', n_fault_type = Some ''custom'',
       n_pre_injection_time = 1, n_injection_time = 5, n_post_injection_time = 2,
       n_fault_args = [PStr ''set_rate {} {}'', PStr ''clear_rate''],
       n_fault_pattern = Some ''degradation'',
       n_fault_pattern_args = [PInt 10, PInt 1000, PInt 0, PInt 50] \<rparr>
   = ([Sleep 1,
       LogError ''f1 contains more than one place to insert arguments, but currently only supports one!''],
      Inl IndexError)"
  by (simp add: node_eval run_eval str_eval fl_eval loop_eval del: Suc_numeral cong: eval_cong)

subsection \<open>C2: the namespace prefix of link commands\<close>
















subsection \<open>C3: the threshold of a random redirect\<close>

text \<open>
  The float computation \<^verbatim>\<open>int(4294967295 * (p / 100))\<close> agrees with the integer quotient
  \<open>4294967295 * p div 100\<close> for every percentage from 0 to 100: each value is evaluated
  with the rounding of the two float operations.
\<close>

lemma redirect_boundary_0_9:
  assumes "0 \<le> p" and "p \<le> 9"
  shows "redirect_boundary p = Inr (4294967295 * p div 100)"
proof -
  have "p = 0 \<or> p = 1 \<or> p = 2 \<or> p = 3 \<or> p = 4 \<or> p = 5 \<or> p = 6 \<or> p = 7 \<or> p = 8 \<or> p = 9"
    using assms by arith
  then show ?thesis
    by (elim disjE) (simp_all add: redirect_boundary_def maximum_value_def fl_eval cong: bindE_first)
qed

lemma redirect_boundary_10_19:
  assumes "10 \<le> p" and "p \<le> 19"
  shows "redirect_boundary p = Inr (4294967295 * p div 100)"
proof -
  have "p = 10 \<or> p = 11 \<or> p = 12 \<or> p = 13 \<or> p = 14 \<or> p = 15 \<or> p = 16 \<or> p = 17 \<or> p = 18 \<or> p = 19"
    using assms by arith
  then show ?thesis
    by (elim disjE) (simp_all add: redirect_boundary_def maximum_value_def fl_eval cong: bindE_first)
qed

lemma redirect_boundary_20_29:
  assumes "20 \<le> p" and "p \<le> 29"
  shows "redirect_boundary p = Inr (4294967295 * p div 100)"
proof -
  have "p = 20 \<or> p = 21 \<or> p = 22 \<or> p = 23 \<or> p = 24 \<or> p = 25 \<or> p = 26 \<or> p = 27 \<or> p = 28 \<or> p = 29"
    using assms by arith
  then show ?thesis
    by (elim disjE) (simp_all add: redirect_boundary_def maximum_value_def fl_eval cong: bindE_first)
qed

lemma redirect_boundary_30_39:
  assumes "30 \<le> p" and "p \<le> 39"
  shows "redirect_boundary p = Inr (4294967295 * p div 100)"
proof -
  have "p = 30 \<or> p = 31 \<or> p = 32 \<or> p = 33 \<or> p = 34 \<or> p = 35 \<or> p = 36 \<or> p = 37 \<or> p = 38 \<or> p = 39"
    using assms by arith
  then show ?thesis
    by (elim disjE) (simp_all add: redirect_boundary_def maximum_value_def fl_eval cong: bindE_first)
qed

lemma redirect_boundary_40_49:
  assumes "40 \<le> p" and "p \<le> 49"
  shows "redirect_boundary p = Inr (4294967295 * p div 100)"
proof -
  have "p = 40 \<or> p = 41 \<or> p = 42 \<or> p = 43 \<or> p = 44 \<or> p = 45 \<or> p = 46 \<or> p = 47 \<or> p = 48 \<or> p = 49"
    using assms by arith
  then show ?thesis
    by (elim disjE) (simp_all add: redirect_boundary_def maximum_value_def fl_eval cong: bindE_first)
qed

lemma redirect_boundary_50_59:
  assumes "50 \<le> p" and "p \<le> 59"
  shows "redirect_boundary p = Inr (4294967295 * p div 100)"
proof -
  have "p = 50 \<or> p = 51 \<or> p = 52 \<or> p = 53 \<or> p = 54 \<or> p = 55 \<or> p = 56 \<or> p = 57 \<or> p = 58 \<or> p = 59"
    using assms by arith
  then show ?thesis
    by (elim disjE) (simp_all add: redirect_boundary_def maximum_value_def fl_eval cong: bindE_first)
qed

lemma redirect_boundary_60_69:
  assumes "60 \<le> p" and "p \<le> 69"
  shows "redirect_boundary p = Inr (4294967295 * p div 100)"
proof -
  have "p = 60 \<or> p = 61 \<or> p = 62 \<or> p = 63 \<or> p = 64 \<or> p = 65 \<or> p = 66 \<or> p = 67 \<or> p = 68 \<or> p = 69"
    using assms by arith
  then show ?thesis
    by (elim disjE) (simp_all add: redirect_boundary_def maximum_value_def fl_eval cong: bindE_first)
qed

lemma redirect_boundary_70_79:
  assumes "70 \<le> p" and "p \<le> 79"
  shows "redirect_boundary p = Inr (4294967295 * p div 100)"
proof -
  have "p = 70 \<or> p = 71 \<or> p = 72 \<or> p = 73 \<or> p = 74 \<or> p = 75 \<or> p = 76 \<or> p = 77 \<or> p = 78 \<or> p = 79"
    using assms by arith
  then show ?thesis
    by (elim disjE) (simp_all add: redirect_boundary_def maximum_value_def fl_eval cong: bindE_first)
qed

lemma redirect_boundary_80_89:
  assumes "80 \<le> p" and "p \<le> 89"
  shows "redirect_boundary p = Inr (4294967295 * p div 100)"
proof -
  have "p = 80 \<or> p = 81 \<or> p = 82 \<or> p = 83 \<or> p = 84 \<or> p = 85 \<or> p = 86 \<or> p = 87 \<or> p = 88 \<or> p = 89"
    using assms by arith
  then show ?thesis
    by (elim disjE) (simp_all add: redirect_boundary_def maximum_value_def fl_eval cong: bindE_first)
qed

lemma redirect_boundary_90_100:
  assumes "90 \<le> p" and "p \<le> 100"
  shows "redirect_boundary p = Inr (4294967295 * p div 100)"
proof -
  have "p = 90 \<or> p = 91 \<or> p = 92 \<or> p = 93 \<or> p = 94 \<or> p = 95 \<or> p = 96 \<or> p = 97 \<or> p = 98 \<or> p = 99 \<or> p = 100"
    using assms by arith
  then show ?thesis
    by (elim disjE) (simp_all add: redirect_boundary_def maximum_value_def fl_eval cong: bindE_first)
qed

lemma redirect_boundary_percent:
  assumes "0 \<le> p" and "p \<le> 100"
  shows "redirect_boundary p = Inr (4294967295 * p div 100)"
proof -
  consider "0 \<le> p \<and> p \<le> 9" | "10 \<le> p \<and> p \<le> 19" | "20 \<le> p \<and> p \<le> 29" | "30 \<le> p \<and> p \<le> 39" | "40 \<le> p \<and> p \<le> 49" | "50 \<le> p \<and> p \<le> 59" | "60 \<le> p \<and> p \<le> 69" | "70 \<le> p \<and> p \<le> 79" | "80 \<le> p \<and> p \<le> 89" | "90 \<le> p \<and> p \<le> 100"
    using assms by arith
  then show ?thesis
    by cases (simp_all add: redirect_boundary_0_9 redirect_boundary_10_19 redirect_boundary_20_29 redirect_boundary_30_39 redirect_boundary_40_49 redirect_boundary_50_59 redirect_boundary_60_69 redirect_boundary_70_79 redirect_boundary_80_89 redirect_boundary_90_100)
qed

text \<open>
  C3. The claim says the \<^verbatim>\<open>lt\<close> value of a random redirect is \<open>\<lfloor>2\<^sup>3\<^sup>2 \<sqdot> p / 100\<rfloor>\<close>, and
  names 1073741823 for \<open>p = 25\<close>. The code multiplies by \<^verbatim>\<open>maximum_value = 4294967295\<close>,
  which is \<open>2\<^sup>3\<^sup>2 - 1\<close>: for \<open>p = 25\<close> the emitted value is 1073741823, while
  \<open>\<lfloor>2\<^sup>3\<^sup>2 \<sqdot> 25 / 100\<rfloor>\<close> is 1073741824.
\<close>

theorem c3_threshold_is_not_two_to_32:
  "make_nics_injection_command (Some 100) ''eth0'' ''redirect'' ''random'' (Some [PStr ''25'']) [PStr ''eth1''] ''add''
     = ([], Inr (Some (''nsenter --target 100 --net tc qdisc add dev eth0 handle ffff: ingress  ; ''
          @ ''nsenter --target 100 --net tc filter add dev eth0 parent ffff:  basic match '' @ [CHR 0x22]
          @ ''meta( random mask 4294967295 lt 1073741823 ) '' @ [CHR 0x22]
          @ ''   action mirred egress redirect dev eth1'')))
   \<and> (2 ^ 32 * 25) div 100 = (1073741824 :: int)"
  by (simp add: link_eval run_eval str_eval parse_eval fl_eval cong: eval_cong)

text \<open>
  C3, amended. For a random-pattern redirect fault whose \<^verbatim>\<open>pattern_args[0]\<close> is a percentage
  \<open>p\<close> from 0 to 100, the add command's basic-match filter uses mask 4294967295 and the
  \<^verbatim>\<open>lt\<close> value \<open>\<lfloor>(2\<^sup>3\<^sup>2 - 1) \<sqdot> p / 100\<rfloor>\<close>, that is \<open>4294967295 * p div 100\<close>.
\<close>

theorem c3_random_redirect_threshold:
  assumes "0 \<le> p" and "p \<le> 100" and "py_int v = Inr p"
    and "py_in ''random'' fault_pattern" and "\<not> py_in ''delay'' fault_type"
    and "py_in ''redirect'' fault_type" and "py_in ''add'' tc_cmd"
  shows "make_nics_injection_command node_pid device fault_type fault_pattern (Some (v # vs)) (PStr dest # rest) tc_cmd
     = ([], Inr (Some (
          (link_base_command node_pid @ ''tc qdisc '' @ tc_cmd @ '' dev '' @ device @ '' handle ffff: ingress '')
          @ '' ; ''
          @ link_base_command node_pid @ ''tc filter '' @ tc_cmd @ '' dev '' @ device @ '' parent ffff: ''
          @ ('' basic match '' @ [CHR 0x22] @ ''meta( random mask 4294967295 lt ''
               @ str_int (4294967295 * p div 100) @ '' ) '' @ [CHR 0x22] @ '' '')
          @ '' '' @ '' action mirred egress '' @ redirect_or_mirror (PStr dest # rest) @ '' dev '' @ dest)))"
  using assms redirect_boundary_percent [of p]
  by (simp add: make_nics_injection_command_def Let_def liftE_def py_index_def maximum_value_def str_eval)

theorem c3_random_redirect_threshold_witness:
  "make_nics_injection_command (Some 7) ''s1-eth1'' ''redirect'' ''random'' (Some [PInt 10]) [PStr ''s1-eth2'', PStr ''mirror''] ''add''
     = ([], Inr (Some (''nsenter --target 7 --net tc qdisc add dev s1-eth1 handle ffff: ingress  ; ''
          @ ''nsenter --target 7 --net tc filter add dev s1-eth1 parent ffff:  basic match '' @ [CHR 0x22]
          @ ''meta( random mask 4294967295 lt 429496729 ) '' @ [CHR 0x22]
          @ ''   action mirred egress mirror dev s1-eth2'')))"
  using c3_random_redirect_threshold [where p = 10 and v = "PInt 10" and fault_pattern = "''random''"
      and fault_type = "''redirect''" and tc_cmd = "''add''" and node_pid = "Some 7"
      and device = "''s1-eth1''" and vs = "[]" and dest = "''s1-eth2''" and rest = "[PStr ''mirror'']"]
  by (simp add: link_base_command_def redirect_or_mirror_def py_index_def str_eval)

end
